theory Spec2Isabelle
  imports Main
begin

section \<open>The calendar edit-event page (edit-event.page.ts)\<close>

text \<open>
  A shallow embedding of the class \<open>AddonCalendarEditEventPage\<close>: the form values, the
  fields of the page that its methods read or write, and the methods \<open>fetchData\<close>,
  \<open>fetchCourses\<close>, \<open>loadEventData\<close>, \<open>loadGroups\<close>, \<open>submit\<close>, \<open>returnToList\<close>,
  \<open>unblockSync\<close> and \<open>ngOnDestroy\<close>. The services the page calls (time utilities,
  calendar, courses, groups, sync, navigation) are outside the file: what they answer is
  an input of the model (the record \<open>services\<close>), and every call that has an effect
  outside the page is appended to a log (the field \<open>calls\<close>).
\<close>

subsection \<open>JavaScript values\<close>

text \<open>
  Numbers are modelled as integers together with \<open>NaN\<close> (timestamps, ids, counts and
  minutes are integers; \<open>parseInt\<close>, \<open>Number\<close> and the conversion of a date can give
  \<open>NaN\<close>). Fractions and infinities are outside the model.
\<close>

datatype jsnum = NaN | Val int

datatype jsval = JUndefined | JNull | JBool bool | JNum jsnum | JStr string

text \<open>Truthiness, as \<open>if (v)\<close>, \<open>!v\<close> and \<open>v || d\<close> read it.\<close>

fun truthy :: "jsval \<Rightarrow> bool" where
  "truthy JUndefined = False"
| "truthy JNull = False"
| "truthy (JBool b) = b"
| "truthy (JNum NaN) = False"
| "truthy (JNum (Val n)) = (n \<noteq> 0)"
| "truthy (JStr s) = (s \<noteq> [])"

definition js_or :: "jsval \<Rightarrow> jsval \<Rightarrow> jsval" where
  \<comment> \<open>\<open>a || b\<close>\<close>
  "js_or a b = (if truthy a then a else b)"

text \<open>An optional property of an object: \<open>undefined\<close> when it is absent.\<close>

definition opt_num :: "int option \<Rightarrow> jsval" where
  "opt_num x = (case x of None \<Rightarrow> JUndefined | Some n \<Rightarrow> JNum (Val n))"

definition opt_str :: "string option \<Rightarrow> jsval" where
  "opt_str x = (case x of None \<Rightarrow> JUndefined | Some s \<Rightarrow> JStr s)"

text \<open>The relational operators on numbers: every comparison with \<open>NaN\<close> is false.\<close>

fun num_gt :: "jsnum \<Rightarrow> jsnum \<Rightarrow> bool" where
  "num_gt (Val a) (Val b) = (a > b)"
| "num_gt _ _ = False"

fun num_lt :: "jsnum \<Rightarrow> jsnum \<Rightarrow> bool" where
  "num_lt (Val a) (Val b) = (a < b)"
| "num_lt _ _ = False"

fun isNaN :: "jsnum \<Rightarrow> bool" where
  "isNaN NaN = True"
| "isNaN (Val n) = False"

text \<open>
  Loose equality \<open>v == n\<close> with a number literal \<open>n\<close>. A string operand is first converted
  to a number by the runtime; that conversion is the parameter \<open>tn\<close>.
\<close>

fun loose_eq_num :: "(string \<Rightarrow> jsnum) \<Rightarrow> jsval \<Rightarrow> int \<Rightarrow> bool" where
  "loose_eq_num tn (JNum (Val m)) n = (m = n)"
| "loose_eq_num tn (JNum NaN) n = False"
| "loose_eq_num tn (JStr s) n = (tn s = Val n)"
| "loose_eq_num tn (JBool b) n = ((if b then 1 else 0) = n)"
| "loose_eq_num tn JUndefined n = False"
| "loose_eq_num tn JNull n = False"

text \<open>\<open>Number(v)\<close>.\<close>

fun to_number :: "(string \<Rightarrow> jsnum) \<Rightarrow> jsval \<Rightarrow> jsnum" where
  "to_number tn JUndefined = NaN"
| "to_number tn JNull = Val 0"
| "to_number tn (JBool b) = Val (if b then 1 else 0)"
| "to_number tn (JNum x) = x"
| "to_number tn (JStr s) = tn s"

text \<open>
  \<open>parseInt(s, 10)\<close> on a string: leading white space (here the ASCII white space
  characters) is skipped, a sign is read, and the longest prefix of decimal digits is the
  value; no digit gives \<open>NaN\<close>.
\<close>

definition is_space :: "char \<Rightarrow> bool" where
  "is_space c = (c \<in> set [CHR 0x09, CHR 0x0A, CHR 0x0B, CHR 0x0C, CHR 0x0D, CHR 0x20])"

definition is_digit :: "char \<Rightarrow> bool" where
  "is_digit c = (c \<in> set ''0123456789'')"

definition digit_val :: "char \<Rightarrow> int" where
  "digit_val c = int (of_char c) - 48"

definition digits_val :: "string \<Rightarrow> int" where
  "digits_val ds = foldl (\<lambda>acc c. 10 * acc + digit_val c) 0 ds"

definition parse_int10 :: "string \<Rightarrow> jsnum" where
  "parse_int10 s =
     (let t = dropWhile is_space s;
          neg = (case t of [] \<Rightarrow> False | c # r \<Rightarrow> c = CHR ''-'');
          u = (case t of [] \<Rightarrow> [] | c # r \<Rightarrow> if c = CHR ''-'' \<or> c = CHR ''+'' then r else t);
          ds = takeWhile is_digit u
      in if ds = [] then NaN else Val (if neg then - digits_val ds else digits_val ds))"

text \<open>
  \<open>parseInt(v, 10)\<close> on a value: the value is converted to a string first. An integer
  prints as its decimal numeral, which parses back to itself; \<open>true\<close>, \<open>false\<close>, \<open>null\<close>,
  \<open>undefined\<close> and \<open>NaN\<close> print as words, which have no digit.
\<close>

fun js_parseInt :: "jsval \<Rightarrow> jsnum" where
  "js_parseInt (JStr s) = parse_int10 s"
| "js_parseInt (JNum (Val n)) = Val n"
| "js_parseInt (JNum NaN) = NaN"
| "js_parseInt (JBool b) = NaN"
| "js_parseInt JUndefined = NaN"
| "js_parseInt JNull = NaN"

subsection \<open>Data model\<close>

text \<open>
  Modelled from the spec: the enum \<open>AddonCalendarEventType\<close> is declared in
  \<open>services/calendar\<close>, outside the file. The event type is one of
  Course/Group/Category/User/Site; each member is a distinct, non-numeric string, here
  its lower-case name.
\<close>

datatype AddonCalendarEventType = SITE | CATEGORY | COURSE | GROUP | USER

fun type_value :: "AddonCalendarEventType \<Rightarrow> string" where
  "type_value SITE = ''site''"
| "type_value CATEGORY = ''category''"
| "type_value COURSE = ''course''"
| "type_value GROUP = ''group''"
| "type_value USER = ''user''"

definition is_type :: "jsval \<Rightarrow> AddonCalendarEventType \<Rightarrow> bool" where
  \<comment> \<open>\<open>v == AddonCalendarEventType.T\<close>: a member is a non-numeric string, so only the
      same string is loosely equal to it.\<close>
  "is_type v t = (v = JStr (type_value t))"

text \<open>\<open>this.form.value\<close>: the value of every control of the form.\<close>

record form_value =
  name :: jsval
  eventtype :: jsval
  categoryid :: jsval
  groupcourseid :: jsval
  groupid :: jsval
  description :: jsval
  location :: jsval
  duration :: jsval
  timedurationminutes :: jsval
  repeat :: jsval
  repeats :: jsval
  repeateditall :: jsval
  timestart :: jsval
  timedurationuntil :: jsval
  courseid :: jsval

text \<open>
  An event as \<open>loadEventData\<close> reads it: one object seen both as an
  \<open>AddonCalendarOfflineEventDBRecord\<close> and as an \<open>AddonCalendarEvent\<close>. A property the
  object does not have reads as \<open>undefined\<close> (\<open>None\<close>). \<open>ev_course_id\<close> is
  \<open>course?.id\<close>.
\<close>

record calendar_event =
  ev_id :: "int option"
  ev_name :: string
  ev_timestart :: int
  ev_eventtype :: string
  ev_categoryid :: "int option"
  ev_groupid :: "int option"
  ev_description :: "string option"
  ev_location :: "string option"
  ev_courseid :: "int option"
  ev_duration :: "int option"
  ev_timedurationuntil :: "int option"
  ev_timedurationminutes :: "int option"
  ev_repeat :: "int option"
  ev_repeats :: "int option"
  ev_repeateditall :: "int option"
  ev_course_id :: "int option"
  ev_timeduration :: "int option"
  ev_repeatid :: "int option"
  ev_eventcount :: "int option"

record event_type_option =
  opt_name :: string
  opt_value :: AddonCalendarEventType

record course =
  c_id :: int
  c_fullname :: string
  c_contacts :: bool  \<comment> \<open>whether the object has the property \<open>contacts\<close>\<close>

record core_group =
  g_id :: int
  g_name :: string

record category =
  cat_id :: int
  cat_name :: string

text \<open>The payload of \<open>submitEvent\<close>; an optional property that was not assigned is \<open>None\<close>.\<close>

record payload =
  d_name :: jsval
  d_eventtype :: jsval
  d_timestart :: jsnum
  d_description_text :: jsval
  d_description_format :: int
  d_location :: jsval
  d_duration :: jsval
  d_repeat :: jsval
  d_courseid :: "jsval option"
  d_groupcourseid :: "jsval option"
  d_groupid :: "jsval option"
  d_categoryid :: "jsval option"
  d_timedurationuntil :: "jsnum option"
  d_timedurationminutes :: "jsval option"
  d_repeats :: "jsnum option"
  d_repeatid :: "int option"
  d_repeateditall :: "jsval option"

subsection \<open>Failures, answers of the services, and the log of calls\<close>

datatype failure = CoreError string | TypeError | ServiceError

datatype 'a response = Rejected | Resolved 'a

datatype notification =
    EDIT_EVENT_EVENT int
  | NEW_EVENT_EVENT "int option"
  | NEW_EVENT_DISCARDED_EVENT

datatype call =
    ShowErrorModal string
  | ShowErrorModalDefault failure string
  | ShowModalLoading string
  | ModalDismiss
  | BlockOperation int
  | UnblockOperation int
  | SubmitEvent "int option" payload
  | TriggerFormSubmittedEvent bool
  | RefreshAfterChangeEvent calendar_event jsval
  | Trigger notification
  | NavigatorBack

text \<open>
  What the collaborators answer during one run. \<open>toDatetimeFormat None\<close> is the call
  without argument (the current time); \<open>convertToTimestamp\<close> is the call with
  \<open>applyOffset = true\<close>; \<open>string_to_number\<close> is the runtime's conversion of a string to a
  number; \<open>compareFullname a b\<close> is \<open>a.toLowerCase().localeCompare(b.toLowerCase())\<close>.
\<close>

record services =
  toDatetimeFormat :: "int option \<Rightarrow> string"
  convertToTimestamp :: "jsval \<Rightarrow> jsnum"
  date_now :: int
  string_to_number :: "string \<Rightarrow> jsnum"
  translate :: "string \<Rightarrow> string"
  getAccessInformation :: "bool response"  \<comment> \<open>the answer's \<open>canmanageentries\<close>\<close>
  getAllowedEventTypes :: "(string \<Rightarrow> bool) response"
  getEventTypeOptions :: "(string \<Rightarrow> bool) \<Rightarrow> event_type_option list"
  calendar_adminseesall :: bool
  waitForSync :: "unit response"
  offline_getEvent :: "calendar_event response"
  getEventById :: "calendar_event option response"
  getUserGroupsInCourse :: "int \<Rightarrow> core_group list response"
  getCategories :: "category list response"
  getCoursesByField :: "course list response"
  getUserCourses :: "course list response"
  getFiltersAndFormatText :: "string \<Rightarrow> int \<Rightarrow> string response"
  siteHomeId :: int
  compareFullname :: "string \<Rightarrow> string \<Rightarrow> int"
  outletActivated :: bool
  submitEvent :: "(bool \<times> calendar_event) response"  \<comment> \<open>\<open>result.sent\<close>, \<open>result.event\<close>\<close>

text \<open>The fields of the page, and the log of the calls made so far (oldest first).\<close>

record page =
  eventId :: "int option"
  courseId :: int
  eventRepeatId :: "int option"
  otherEventsCount :: int
  hasOffline :: bool
  gotEventData :: bool
  isDestroyed :: bool
  error :: bool
  loaded :: bool
  showAll :: bool
  types :: "string \<Rightarrow> bool"
  eventTypes :: "event_type_option list"
  categories :: "category list"
  courses :: "course list"
  groups :: "core_group list"
  loadingGroups :: bool
  courseGroupSet :: bool
  form :: form_value
  originalData :: "form_value option"
  calls :: "call list"

definition log_call :: "call \<Rightarrow> page \<Rightarrow> page" where
  "log_call c p = p\<lparr>calls := calls p @ [c]\<rparr>"

subsection \<open>loadGroups and loadEventData\<close>

definition loadGroups :: "services \<Rightarrow> int \<Rightarrow> page \<Rightarrow> failure option \<times> page" where
  "loadGroups sv cid p =
     (let p1 = p\<lparr>loadingGroups := True\<rparr>
      in case getUserGroupsInCourse sv cid of
           Rejected \<Rightarrow> (Some ServiceError, p1\<lparr>loadingGroups := False\<rparr>)
         | Resolved gs \<Rightarrow>
             (None, p1\<lparr>groups := gs, courseGroupSet := True, loadingGroups := False\<rparr>))"

text \<open>
  The controls set by both branches of \<open>loadEventData\<close> (lines 321 to 329), then the
  offline branch (lines 333 to 340) and the online branch (lines 344 to 358).
\<close>

definition load_common :: "services \<Rightarrow> calendar_event \<Rightarrow> int option \<Rightarrow> form_value \<Rightarrow> form_value" where
  "load_common sv ev cid f =
     f\<lparr>name := JStr (ev_name ev),
       timestart := JStr (toDatetimeFormat sv (Some (ev_timestart ev * 1000))),
       eventtype := JStr (ev_eventtype ev),
       categoryid := js_or (opt_num (ev_categoryid ev)) (JStr []),
       courseid := js_or (opt_num cid) (JStr []),
       groupcourseid := js_or (opt_num cid) (JStr []),
       groupid := js_or (opt_num (ev_groupid ev)) (JStr []),
       description := opt_str (ev_description ev),
       location := opt_str (ev_location ev)\<rparr>"

definition load_offline :: "services \<Rightarrow> calendar_event \<Rightarrow> form_value \<Rightarrow> form_value" where
  "load_offline sv ev f =
     f\<lparr>duration := opt_num (ev_duration ev),
       timedurationuntil := JStr (toDatetimeFormat sv (Some
          (let ms = (case ev_timedurationuntil ev of None \<Rightarrow> 0 | Some u \<Rightarrow> u) * 1000
           in if ms \<noteq> 0 then ms else date_now sv))),
       timedurationminutes := js_or (opt_num (ev_timedurationminutes ev)) (JStr []),
       repeat := JBool (truthy (opt_num (ev_repeat ev))),
       repeats := js_or (opt_num (ev_repeats ev)) (JStr ''1''),
       repeateditall := js_or (opt_num (ev_repeateditall ev)) (JNum (Val 1))\<rparr>"

definition load_online :: "services \<Rightarrow> calendar_event \<Rightarrow> form_value \<Rightarrow> form_value" where
  "load_online sv ev f =
     (let f1 = (case ev_timeduration ev of
                  None \<Rightarrow> f\<lparr>duration := JNum (Val 0),
                             timedurationuntil := JStr (toDatetimeFormat sv None)\<rparr>
                | Some d \<Rightarrow>
                    if d > 0
                    then f\<lparr>duration := JNum (Val 1),
                           timedurationuntil := JStr (toDatetimeFormat sv
                              (Some ((ev_timestart ev + d) * 1000)))\<rparr>
                    else f\<lparr>duration := JNum (Val 0),
                           timedurationuntil := JStr (toDatetimeFormat sv None)\<rparr>)
      in f1\<lparr>timedurationminutes := JStr [],
            repeat := JBool (truthy (opt_num (ev_repeatid ev))),
            repeats := js_or (opt_num (ev_eventcount ev)) (JStr ''1''),
            repeateditall := JNum (Val 1)\<rparr>)"

definition loadEventData :: "services \<Rightarrow> calendar_event \<Rightarrow> bool \<Rightarrow> page \<Rightarrow> failure option \<times> page" where
  "loadEventData sv ev isOffline p =
     (let cid = (if isOffline then ev_courseid ev else ev_course_id ev);
          f1 = load_common sv ev cid (form p);
          f2 = (if isOffline then load_offline sv ev f1 else load_online sv ev f1);
          p1 = p\<lparr>form := f2\<rparr>
      in case cid of
           None \<Rightarrow> (None, p1)
         | Some c \<Rightarrow>
             if ev_eventtype ev = type_value GROUP \<and> c \<noteq> 0
             then loadGroups sv c p1 else (None, p1))"

subsection \<open>fetchCategories and fetchCourses\<close>

definition fetchCategories :: "services \<Rightarrow> page \<Rightarrow> failure option \<times> page" where
  "fetchCategories sv p =
     (case getCategories sv of
        Rejected \<Rightarrow> (Some ServiceError, p)
      | Resolved cs \<Rightarrow> (None, p\<lparr>categories := cs\<rparr>))"

definition courseFillterFullname :: "services \<Rightarrow> course \<Rightarrow> course" where
  \<comment> \<open>the name is replaced by the filtered text; a rejection is ignored\<close>
  "courseFillterFullname sv c =
     (case getFiltersAndFormatText sv (c_fullname c) (c_id c) of
        Resolved t \<Rightarrow> c\<lparr>c_fullname := t\<rparr>
      | Rejected \<Rightarrow> c)"

text \<open>\<open>Array.prototype.sort\<close> with a comparison function: a stable insertion sort.\<close>

fun insert_sorted :: "('a \<Rightarrow> 'a \<Rightarrow> int) \<Rightarrow> 'a \<Rightarrow> 'a list \<Rightarrow> 'a list" where
  "insert_sorted cmp x [] = [x]"
| "insert_sorted cmp x (y # ys) =
     (if cmp x y \<le> 0 then x # y # ys else y # insert_sorted cmp x ys)"

definition sort_with :: "('a \<Rightarrow> 'a \<Rightarrow> int) \<Rightarrow> 'a list \<Rightarrow> 'a list" where
  "sort_with cmp xs = foldr (insert_sorted cmp) xs []"

text \<open>
  \<open>'contacts' in courses[0]\<close>: on an empty array \<open>courses[0]\<close> is \<open>undefined\<close> and the
  operator \<open>in\<close> throws a TypeError.
\<close>

definition contacts_in_first :: "course list \<Rightarrow> failure + bool" where
  "contacts_in_first cs = (case cs of [] \<Rightarrow> Inl TypeError | c # _ \<Rightarrow> Inr (c_contacts c))"

definition fetchCourses :: "services \<Rightarrow> page \<Rightarrow> failure option \<times> page" where
  "fetchCourses sv p =
     (case (if showAll p then getCoursesByField sv else getUserCourses sv) of
        Rejected \<Rightarrow> (Some ServiceError, p)
      | Resolved cs \<Rightarrow>
          if int (length cs) < 0 then (None, p\<lparr>courses := []\<rparr>)
          else
            (case (if showAll p
                   then (case contacts_in_first cs of
                           Inl e \<Rightarrow> Inl e
                         | Inr b \<Rightarrow>
                             if b then Inr (filter (\<lambda>c. c_id c \<noteq> siteHomeId sv) cs)
                             else Inr (filter (\<lambda>c. c_id c \<noteq> siteHomeId sv) cs))
                   else Inr cs) of
               Inl e \<Rightarrow> (Some e, p)
             | Inr cs1 \<Rightarrow>
                 (case contacts_in_first cs1 of
                    Inl e \<Rightarrow> (Some e, p)
                  | Inr b \<Rightarrow>
                      (let cs2 = (if b then map (courseFillterFullname sv) cs1
                                  else map (courseFillterFullname sv) cs1)
                       in (None, p\<lparr>courses :=
                             sort_with (\<lambda>a b. compareFullname sv (c_fullname a) (c_fullname b)) cs2\<rparr>)))))"

subsection \<open>fetchData\<close>

text \<open>
  The promise pushed at line 176, for the event \<open>eid = this.eventId\<close> (truthy when the
  promise is pushed, and assigned by no method afterwards).
\<close>

definition finish_event :: "services \<Rightarrow> calendar_event option \<Rightarrow> page \<Rightarrow> failure option \<times> page" where
  \<comment> \<open>lines 209 to 216\<close>
  "finish_event sv eventForm p =
     (let p1 = p\<lparr>gotEventData := True\<rparr>
      in case eventForm of
           None \<Rightarrow> (None, p1)
         | Some ev \<Rightarrow> loadEventData sv ev (hasOffline p1) p1)"

definition fetchEvent :: "services \<Rightarrow> int \<Rightarrow> page \<Rightarrow> failure option \<times> page" where
  "fetchEvent sv eid p =
     (case waitForSync sv of
        Rejected \<Rightarrow> (Some ServiceError, p)
      | Resolved u \<Rightarrow>
          (let p1 = (if \<not> isDestroyed p \<and> eid \<noteq> 0 then log_call (BlockOperation eid) p else p);
               offl = (case offline_getEvent sv of Resolved ev \<Rightarrow> Some ev | Rejected \<Rightarrow> None);
               p2 = p1\<lparr>hasOffline := (offl \<noteq> None)\<rparr>
           in if eid > 0
              then (case getEventById sv of
                      Rejected \<Rightarrow> (Some ServiceError, p2)
                    | Resolved event \<Rightarrow>
                        (let eventForm = (case offl of None \<Rightarrow> event | Some ev \<Rightarrow> Some ev);
                             rid = (case event of None \<Rightarrow> None | Some e \<Rightarrow> ev_repeatid e);
                             p3 = p2\<lparr>eventRepeatId := rid\<rparr>;
                             p4 = (if truthy (opt_num rid)
                                   then p3\<lparr>otherEventsCount :=
                                          (case event of
                                             None \<Rightarrow> 0
                                           | Some e \<Rightarrow>
                                               (case ev_eventcount e of
                                                  None \<Rightarrow> 0
                                                | Some n \<Rightarrow> if n \<noteq> 0 then n - 1 else 0))\<rparr>
                                   else p3)
                         in finish_event sv eventForm p4))
              else finish_event sv offl p2))"

text \<open>
  Lines 174 to 231: the promises are started in this order and awaited together. They
  write disjoint fields of the page, so they are run here one after the other, each to its
  end; \<open>Promise.all\<close> rejects when one of them does, here with the failure of the first
  in this order. In the code the rejection that comes first in time is the one reported,
  and the \<open>catch\<close> of \<open>fetchData\<close> runs at that moment while the other promises go on:
  for a load in which a promise fails, which failure is shown and the order of the calls
  in the log can differ from the model; a load in which every promise resolves is the
  same in both.
\<close>

definition first_failure :: "failure option list \<Rightarrow> failure option" where
  "first_failure es = (case filter (\<lambda>e. e \<noteq> None) es of [] \<Rightarrow> None | e # _ \<Rightarrow> e)"

definition run_promises :: "services \<Rightarrow> bool \<Rightarrow> page \<Rightarrow> failure option \<times> page" where
  "run_promises sv canmanageentries p =
     (let r1 = (case eventId p of
                  None \<Rightarrow> (None, p)
                | Some eid \<Rightarrow>
                    if eid \<noteq> 0 \<and> \<not> gotEventData p then fetchEvent sv eid p else (None, p));
          r2 = (if types p ''category'' then fetchCategories sv (snd r1) else (None, snd r1));
          p3 = (snd r2)\<lparr>showAll := (calendar_adminseesall sv \<and> canmanageentries)\<rparr>;
          r3 = (if types p ''course'' \<or> types p ''groups'' then fetchCourses sv p3 else (None, p3))
      in (first_failure [fst r1, fst r2, fst r3], snd r3))"

definition init_type :: "event_type_option \<Rightarrow> page \<Rightarrow> page" where
  \<comment> \<open>lines 233 to 240; \<open>first\<close> is \<open>eventTypes[0]\<close>\<close>
  "init_type first p =
     (if \<not> truthy (eventtype (form p))
      then (if types p ''course''
            then p\<lparr>form := (form p)\<lparr>eventtype := JStr (type_value COURSE)\<rparr>\<rparr>
            else p\<lparr>form := (form p)\<lparr>eventtype := JStr (type_value (opt_value first))\<rparr>\<rparr>)
      else p)"

definition fetchData_try :: "services \<Rightarrow> page \<Rightarrow> failure option \<times> page" where
  \<comment> \<open>the body of the \<open>try\<close>, lines 164 to 242\<close>
  "fetchData_try sv p =
     (case getAccessInformation sv of
        Rejected \<Rightarrow> (Some ServiceError, p)
      | Resolved canmanageentries \<Rightarrow>
          (case getAllowedEventTypes sv of
             Rejected \<Rightarrow> (Some ServiceError, p)
           | Resolved tys \<Rightarrow>
               (let p1 = p\<lparr>types := tys\<rparr>
                in case getEventTypeOptions sv (types p1) of
                     [] \<Rightarrow> (Some (CoreError
                              (translate sv ''addon.calendar.nopermissiontoupdatecalendar'')), p1)
                   | first # rest \<Rightarrow>
                       (case run_promises sv canmanageentries p1 of
                          (Some e, q) \<Rightarrow> (Some e, q)
                        | (None, q) \<Rightarrow>
                            (None, (init_type first q)\<lparr>eventTypes := first # rest\<rparr>)))))"

definition fetchData :: "services \<Rightarrow> page \<Rightarrow> page" where
  "fetchData sv p =
     (case fetchData_try sv (p\<lparr>error := False\<rparr>) of
        (None, q) \<Rightarrow> q
      | (Some e, q) \<Rightarrow> (log_call (ShowErrorModalDefault e ''Error getting data.'') q)\<lparr>error := True\<rparr>)"

subsection \<open>The constructor and ngOnInit\<close>

definition constructed :: "services \<Rightarrow> int option \<Rightarrow> int option \<Rightarrow> int option \<Rightarrow> page" where
  \<comment> \<open>the page after the constructor and lines 135 to 143 of \<open>ngOnInit\<close>; the arguments
      are the route parameters \<open>eventId\<close>, \<open>courseId\<close> and \<open>timestamp\<close>\<close>
  "constructed sv eventIdParam courseIdParam timestamp =
     (let cid = (case courseIdParam of None \<Rightarrow> 0 | Some c \<Rightarrow> c);
          currentDate = toDatetimeFormat sv timestamp
      in \<lparr>eventId = (case eventIdParam of None \<Rightarrow> None | Some e \<Rightarrow> if e \<noteq> 0 then Some e else None),
          courseId = cid,
          eventRepeatId = None,
          otherEventsCount = 0,
          hasOffline = False,
          gotEventData = False,
          isDestroyed = False,
          error = False,
          loaded = False,
          showAll = False,
          types = (\<lambda>n. False),
          eventTypes = [],
          categories = [],
          courses = [],
          groups = [],
          loadingGroups = False,
          courseGroupSet = False,
          form = \<lparr>name = JStr [], eventtype = JStr [], categoryid = JStr [],
                   groupcourseid = JStr [], groupid = JStr [], description = JStr [],
                   location = JStr [], duration = JNum (Val 0), timedurationminutes = JStr [],
                   repeat = JBool False, repeats = JStr ''1'', repeateditall = JNum (Val 1),
                   timestart = JStr currentDate, timedurationuntil = JStr currentDate,
                   courseid = JNum (Val cid)\<rparr>,
          originalData = None,
          calls = []\<rparr>)"

definition ngOnInit :: "services \<Rightarrow> int option \<Rightarrow> int option \<Rightarrow> int option \<Rightarrow> page" where
  "ngOnInit sv eventIdParam courseIdParam timestamp =
     (let p = fetchData sv (constructed sv eventIdParam courseIdParam timestamp)
      in p\<lparr>originalData := Some (form p), loaded := True\<rparr>)"

subsection \<open>submit, returnToList, unblockSync and ngOnDestroy\<close>

definition validate :: "services \<Rightarrow> form_value \<Rightarrow> string option" where
  \<comment> \<open>lines 453 to 470: the message key of the first rule that fails\<close>
  "validate sv formData =
     (let timeStartDate = convertToTimestamp sv (timestart formData);
          timeUntilDate = convertToTimestamp sv (timedurationuntil formData);
          timeDurationMinutes = js_parseInt (js_or (timedurationminutes formData) (JStr []))
      in if is_type (eventtype formData) COURSE \<and> \<not> truthy (courseid formData)
         then Some ''core.selectacourse''
         else if is_type (eventtype formData) GROUP \<and> \<not> truthy (groupcourseid formData)
         then Some ''core.selectacourse''
         else if is_type (eventtype formData) GROUP \<and> \<not> truthy (groupid formData)
         then Some ''core.selectagroup''
         else if is_type (eventtype formData) CATEGORY \<and> \<not> truthy (categoryid formData)
         then Some ''core.selectacategory''
         else if loose_eq_num (string_to_number sv) (duration formData) 1
                 \<and> num_gt timeStartDate timeUntilDate
         then Some ''addon.calendar.invalidtimedurationuntil''
         else if loose_eq_num (string_to_number sv) (duration formData) 2
                 \<and> (isNaN timeDurationMinutes \<or> num_lt timeDurationMinutes (Val 1))
         then Some ''addon.calendar.invalidtimedurationminutes''
         else None)"

definition build_data :: "services \<Rightarrow> int option \<Rightarrow> form_value \<Rightarrow> payload" where
  \<comment> \<open>lines 480 to 515; \<open>rid\<close> is \<open>this.eventRepeatId\<close>\<close>
  "build_data sv rid formData =
     (let timeStartDate = convertToTimestamp sv (timestart formData);
          timeUntilDate = convertToTimestamp sv (timedurationuntil formData);
          d0 = \<lparr>d_name = name formData,
                d_eventtype = eventtype formData,
                d_timestart = timeStartDate,
                d_description_text = js_or (description formData) (JStr []),
                d_description_format = 1,
                d_location = location formData,
                d_duration = duration formData,
                d_repeat = repeat formData,
                d_courseid = None, d_groupcourseid = None, d_groupid = None,
                d_categoryid = None, d_timedurationuntil = None,
                d_timedurationminutes = None, d_repeats = None, d_repeatid = None,
                d_repeateditall = None\<rparr>;
          d1 = (if is_type (eventtype formData) COURSE
                then d0\<lparr>d_courseid := Some (courseid formData)\<rparr>
                else if is_type (eventtype formData) GROUP
                then d0\<lparr>d_groupcourseid := Some (groupcourseid formData),
                        d_groupid := Some (groupid formData)\<rparr>
                else if is_type (eventtype formData) CATEGORY
                then d0\<lparr>d_categoryid := Some (categoryid formData)\<rparr>
                else d0);
          d2 = (if loose_eq_num (string_to_number sv) (duration formData) 1
                then d1\<lparr>d_timedurationuntil := Some timeUntilDate\<rparr>
                else if loose_eq_num (string_to_number sv) (duration formData) 2
                then d1\<lparr>d_timedurationminutes := Some (timedurationminutes formData)\<rparr>
                else d1);
          d3 = (if truthy (repeat formData)
                then d2\<lparr>d_repeats := Some (to_number (string_to_number sv) (repeats formData))\<rparr>
                else d2)
      in if truthy (opt_num rid)
         then d3\<lparr>d_repeatid := rid, d_repeateditall := Some (repeateditall formData)\<rparr>
         else d3)"

definition unblockSync :: "page \<Rightarrow> page" where
  "unblockSync p =
     (case eventId p of
        None \<Rightarrow> p
      | Some e \<Rightarrow> if e \<noteq> 0 then log_call (UnblockOperation e) p else p)"

definition null_form :: form_value where
  \<comment> \<open>\<open>form.reset(undefined)\<close> sets every control to \<open>null\<close>\<close>
  "null_form =
     \<lparr>name = JNull, eventtype = JNull, categoryid = JNull, groupcourseid = JNull,
      groupid = JNull, description = JNull, location = JNull, duration = JNull,
      timedurationminutes = JNull, repeat = JNull, repeats = JNull, repeateditall = JNull,
      timestart = JNull, timedurationuntil = JNull, courseid = JNull\<rparr>"

definition reset_value :: "jsval \<Rightarrow> jsval" where
  \<comment> \<open>a control that is reset to \<open>undefined\<close> takes its default value, \<open>null\<close>\<close>
  "reset_value v = (if v = JUndefined then JNull else v)"

definition form_reset :: "form_value option \<Rightarrow> form_value" where
  \<comment> \<open>the value of the form after \<open>form.reset(value)\<close>\<close>
  "form_reset value_opt =
     (case value_opt of
        None \<Rightarrow> null_form
      | Some v \<Rightarrow>
          \<lparr>name = reset_value (name v), eventtype = reset_value (eventtype v),
           categoryid = reset_value (categoryid v),
           groupcourseid = reset_value (groupcourseid v),
           groupid = reset_value (groupid v), description = reset_value (description v),
           location = reset_value (location v), duration = reset_value (duration v),
           timedurationminutes = reset_value (timedurationminutes v),
           repeat = reset_value (repeat v), repeats = reset_value (repeats v),
           repeateditall = reset_value (repeateditall v),
           timestart = reset_value (timestart v),
           timedurationuntil = reset_value (timedurationuntil v),
           courseid = reset_value (courseid v)\<rparr>)"

definition creation_notification :: "calendar_event option \<Rightarrow> notification" where
  \<comment> \<open>lines 564 to 572\<close>
  "creation_notification event =
     (case event of
        Some ev \<Rightarrow> NEW_EVENT_EVENT (ev_id ev)
      | None \<Rightarrow> NEW_EVENT_DISCARDED_EVENT)"

definition returnToList :: "services \<Rightarrow> calendar_event option \<Rightarrow> page \<Rightarrow> page" where
  "returnToList sv event p =
     (let p1 = unblockSync p;
          p2 = (case eventId p1 of
                  None \<Rightarrow> log_call (Trigger (creation_notification event)) p1
                | Some e \<Rightarrow>
                    if e \<noteq> 0 \<and> e > 0
                    then log_call (Trigger (EDIT_EVENT_EVENT e)) p1
                    else log_call (Trigger (creation_notification event)) p1)
      in if outletActivated sv
         then (let f = form_reset (originalData p2)
               in p2\<lparr>hasOffline := False, form := f, originalData := Some f\<rparr>)
         else log_call NavigatorBack (p2\<lparr>originalData := None\<rparr>))"

definition numberOfRepetitions :: "form_value \<Rightarrow> payload \<Rightarrow> page \<Rightarrow> jsval" where
  \<comment> \<open>lines 529 and 530\<close>
  "numberOfRepetitions formData data p =
     (if truthy (repeat formData) then repeats formData
      else if (case d_repeateditall data of None \<Rightarrow> False | Some v \<Rightarrow> truthy v)
              \<and> otherEventsCount p \<noteq> 0
      then JNum (Val (otherEventsCount p + 1))
      else JNum (Val 1))"

text \<open>
  \<open>submit\<close> in two parts: up to the call of \<open>submitEvent\<close> (lines 452 to 522), and from
  its answer on (lines 522 to 544). The first part gives the form value and the payload it
  holds in its local variables, or nothing when it stopped at line 476.
\<close>

definition submit_start :: "services \<Rightarrow> page \<Rightarrow> (form_value \<times> payload) option \<times> page" where
  "submit_start sv p =
     (let formData = form p
      in case validate sv formData of
           Some err \<Rightarrow> (None, log_call (ShowErrorModal (translate sv err)) p)
         | None \<Rightarrow>
             (let data = build_data sv (eventRepeatId p) formData
              in (Some (formData, data),
                  log_call (SubmitEvent (eventId p) data)
                    (log_call (ShowModalLoading ''core.sending'') p))))"

definition submit_resume :: "services \<Rightarrow> form_value \<Rightarrow> payload \<Rightarrow> page \<Rightarrow> page" where
  "submit_resume sv formData data p =
     log_call ModalDismiss
       (case submitEvent sv of
          Rejected \<Rightarrow> log_call (ShowErrorModalDefault ServiceError ''Error sending data.'') p
        | Resolved (sent, event) \<Rightarrow>
            (let p1 = log_call (TriggerFormSubmittedEvent sent) p;
                 p2 = (if sent
                       then log_call (RefreshAfterChangeEvent event
                                        (numberOfRepetitions formData data p1)) p1
                       else p1)
             in returnToList sv (Some event) p2))"

definition submit :: "services \<Rightarrow> page \<Rightarrow> page" where
  "submit sv p =
     (case submit_start sv p of
        (None, p1) \<Rightarrow> p1
      | (Some (formData, data), p1) \<Rightarrow> submit_resume sv formData data p1)"

definition ngOnDestroy :: "page \<Rightarrow> page" where
  "ngOnDestroy p = (unblockSync p)\<lparr>isDestroyed := True\<rparr>"

subsection \<open>Properties stated about the page\<close>

text \<open>
  The number of calls \<open>CoreSync.unblockOperation(COMPONENT, e)\<close> in the log, and the
  condition that none of the four required-field rules of \<open>submit\<close> (lines 458 to 465)
  fires.
\<close>

definition unblock_count :: "int \<Rightarrow> page \<Rightarrow> nat" where
  "unblock_count e p = length (filter (\<lambda>c. c = UnblockOperation e) (calls p))"

definition required_fields_ok :: "form_value \<Rightarrow> bool" where
  "required_fields_ok fd =
     (\<not> (is_type (eventtype fd) COURSE \<and> \<not> truthy (courseid fd))
      \<and> \<not> (is_type (eventtype fd) GROUP \<and> \<not> truthy (groupcourseid fd))
      \<and> \<not> (is_type (eventtype fd) GROUP \<and> \<not> truthy (groupid fd))
      \<and> \<not> (is_type (eventtype fd) CATEGORY \<and> \<not> truthy (categoryid fd)))"

text \<open>\<open>parseInt\<close> gave an integer greater than or equal to 1.\<close>

fun at_least_one :: "jsnum \<Rightarrow> bool" where
  "at_least_one NaN = False"
| "at_least_one (Val n) = (1 \<le> n)"

subsection \<open>Example inputs\<close>

text \<open>
  A concrete run: a time service that knows three instants, an event of the server that
  lasts one hour, a local draft without duration, and the page opened on event 7.
\<close>

definition example_datetime :: "int option \<Rightarrow> string" where
  "example_datetime t =
     (if t = Some 1700000000000 then ''2023-11-14T22:13:20.000Z''
      else if t = Some 1700003600000 then ''2023-11-14T23:13:20.000Z''
      else ''2023-11-14T22:00:00.000Z'')"

definition example_timestamp :: "jsval \<Rightarrow> jsnum" where
  "example_timestamp v =
     (if v = JStr ''2023-11-14T22:13:20.000Z'' then Val 1700000000
      else if v = JStr ''2023-11-14T23:13:20.000Z'' then Val 1700003600
      else if v = JStr ''2023-11-14T22:00:00.000Z'' then Val 1699999200
      else NaN)"

definition example_event :: calendar_event where
  "example_event =
     \<lparr>ev_id = Some 7, ev_name = ''Exam'', ev_timestart = 1700000000, ev_eventtype = ''user'',
      ev_categoryid = None, ev_groupid = None, ev_description = Some ''Bring a pen'',
      ev_location = Some ''Room 2'', ev_courseid = None, ev_duration = None,
      ev_timedurationuntil = None, ev_timedurationminutes = None, ev_repeat = None,
      ev_repeats = None, ev_repeateditall = None, ev_course_id = None,
      ev_timeduration = Some 3600, ev_repeatid = None, ev_eventcount = None\<rparr>"

definition example_draft :: calendar_event where
  "example_draft =
     \<lparr>ev_id = Some (- 1), ev_name = ''Exam'', ev_timestart = 1700000000, ev_eventtype = ''user'',
      ev_categoryid = None, ev_groupid = None, ev_description = Some ''Bring a pen'',
      ev_location = Some ''Room 2'', ev_courseid = None, ev_duration = Some 0,
      ev_timedurationuntil = None, ev_timedurationminutes = None, ev_repeat = Some 0,
      ev_repeats = None, ev_repeateditall = None, ev_course_id = None,
      ev_timeduration = None, ev_repeatid = None, ev_eventcount = None\<rparr>"

definition example_types :: "string \<Rightarrow> bool" where
  "example_types n = (n = ''user'' \<or> n = ''course'')"

definition example_options :: "(string \<Rightarrow> bool) \<Rightarrow> event_type_option list" where
  "example_options tys =
     (if tys ''user'' then [\<lparr>opt_name = ''core.user'', opt_value = USER\<rparr>] else []) @
     (if tys ''course'' then [\<lparr>opt_name = ''core.course'', opt_value = COURSE\<rparr>] else [])"

definition example_services :: services where
  "example_services =
     \<lparr>toDatetimeFormat = example_datetime,
      convertToTimestamp = example_timestamp,
      date_now = 1699999200000,
      string_to_number = parse_int10,
      translate = (\<lambda>k. k),
      getAccessInformation = Resolved True,
      getAllowedEventTypes = Resolved example_types,
      getEventTypeOptions = example_options,
      calendar_adminseesall = False,
      waitForSync = Resolved (),
      offline_getEvent = Rejected,
      getEventById = Resolved (Some example_event),
      getUserGroupsInCourse = (\<lambda>c. Resolved []),
      getCategories = Resolved [],
      getCoursesByField = Resolved [],
      getUserCourses = Resolved [],
      getFiltersAndFormatText = (\<lambda>s i. Resolved s),
      siteHomeId = 1,
      compareFullname = (\<lambda>a b. 0),
      outletActivated = False,
      submitEvent = Resolved (True, example_event)\<rparr>"

definition example_page :: page where
  "example_page = constructed example_services (Some 7) None (Some 1700000000000)"

definition example_courses_services :: services where
  "example_courses_services =
     example_services\<lparr>getUserCourses :=
        Resolved [\<lparr>c_id = 3, c_fullname = ''Physics'', c_contacts = False\<rparr>,
                  \<lparr>c_id = 2, c_fullname = ''Algebra'', c_contacts = False\<rparr>]\<rparr>"

definition example_group_form :: form_value where
  "example_group_form = (form example_page)\<lparr>name := JStr ''Exam'', eventtype := JStr ''group''\<rparr>"

definition example_course_form :: form_value where
  "example_course_form =
     (form example_page)\<lparr>name := JStr ''Exam'', eventtype := JStr ''course'', courseid := JStr [],
        duration := JNum (Val 1), timestart := JStr ''2023-11-14T23:13:20.000Z'',
        timedurationuntil := JStr ''2023-11-14T22:13:20.000Z''\<rparr>"

definition example_category_form :: form_value where
  "example_category_form =
     (form example_page)\<lparr>name := JStr ''Exam'', eventtype := JStr ''category'',
        duration := JNum (Val 2), timedurationminutes := JStr ''abc''\<rparr>"

definition example_submit_form :: form_value where
  "example_submit_form =
     (form example_page)\<lparr>name := JStr ''Exam'', eventtype := JStr ''group'',
        groupcourseid := JNum (Val 3), groupid := JNum (Val 5),
        duration := JNum (Val 2), timedurationminutes := JStr ''30'', repeat := JBool True,
        repeats := JStr ''4''\<rparr>"

text \<open>The payload of \<open>example_submit_form\<close>.\<close>

definition example_payload :: payload where
  "example_payload =
     \<lparr>d_name = JStr ''Exam'', d_eventtype = JStr ''group'', d_timestart = Val 1700000000,
      d_description_text = JStr [], d_description_format = 1, d_location = JStr [],
      d_duration = JNum (Val 2), d_repeat = JBool True, d_courseid = None,
      d_groupcourseid = Some (JNum (Val 3)), d_groupid = Some (JNum (Val 5)),
      d_categoryid = None, d_timedurationuntil = None,
      d_timedurationminutes = Some (JStr ''30''), d_repeats = Some (Val 4),
      d_repeatid = None, d_repeateditall = None\<rparr>"

text \<open>The page opened on event 7, after \<open>ngOnInit\<close> has loaded the event into the form.\<close>

definition example_loaded_page :: page where
  "example_loaded_page = ngOnInit example_courses_services (Some 7) None (Some 1700000000000)"


section \<open>Proofs\<close>

lemmas example_defs =
  example_services_def example_page_def example_datetime_def example_timestamp_def
  example_event_def example_draft_def example_types_def example_options_def
  example_courses_services_def example_group_form_def example_course_form_def
  example_category_form_def example_submit_form_def constructed_def Let_def

lemmas js_defs = js_or_def opt_num_def opt_str_def is_type_def

lemmas page_defs =
  ngOnInit_def fetchData_def fetchData_try_def run_promises_def fetchEvent_def finish_event_def
  loadEventData_def load_common_def load_online_def load_offline_def loadGroups_def
  fetchCategories_def fetchCourses_def contacts_in_first_def courseFillterFullname_def
  sort_with_def first_failure_def init_type_def log_call_def

lemma example_loaded:
  "example_loaded_page =
     \<lparr>eventId = Some 7, courseId = 0, eventRepeatId = None, otherEventsCount = 0,
      hasOffline = False, gotEventData = True, isDestroyed = False, error = False,
      loaded = True, showAll = False, types = example_types,
      eventTypes = [\<lparr>opt_name = ''core.user'', opt_value = USER\<rparr>,
                    \<lparr>opt_name = ''core.course'', opt_value = COURSE\<rparr>],
      categories = [],
      courses = [\<lparr>c_id = 3, c_fullname = ''Physics'', c_contacts = False\<rparr>,
                 \<lparr>c_id = 2, c_fullname = ''Algebra'', c_contacts = False\<rparr>],
      groups = [], loadingGroups = False, courseGroupSet = False,
      form = \<lparr>name = JStr ''Exam'', eventtype = JStr ''user'', categoryid = JStr [],
               groupcourseid = JStr [], groupid = JStr [], description = JStr ''Bring a pen'',
               location = JStr ''Room 2'', duration = JNum (Val 1), timedurationminutes = JStr [],
               repeat = JBool False, repeats = JStr ''1'', repeateditall = JNum (Val 1),
               timestart = JStr ''2023-11-14T22:13:20.000Z'',
               timedurationuntil = JStr ''2023-11-14T23:13:20.000Z'', courseid = JStr []\<rparr>,
      originalData = Some \<lparr>name = JStr ''Exam'', eventtype = JStr ''user'', categoryid = JStr [],
               groupcourseid = JStr [], groupid = JStr [], description = JStr ''Bring a pen'',
               location = JStr ''Room 2'', duration = JNum (Val 1), timedurationminutes = JStr [],
               repeat = JBool False, repeats = JStr ''1'', repeateditall = JNum (Val 1),
               timestart = JStr ''2023-11-14T22:13:20.000Z'',
               timedurationuntil = JStr ''2023-11-14T23:13:20.000Z'', courseid = JStr []\<rparr>,
      calls = [BlockOperation 7]\<rparr>"
  by (simp add: example_loaded_page_def example_defs js_defs page_defs)

subsection \<open>The log and the event id\<close>

lemma calls_log_call: "calls (log_call c p) = calls p @ [c]"
  by (simp add: log_call_def)

lemma calls_unblockSync:
  "calls (unblockSync p) = calls p @ (case eventId p of None \<Rightarrow> [] | Some e \<Rightarrow> if e \<noteq> 0 then [UnblockOperation e] else [])"
  by (simp add: unblockSync_def log_call_def split: option.splits)

lemma eventId_unblockSync: "eventId (unblockSync p) = eventId p"
  by (simp add: unblockSync_def log_call_def split: option.splits)

lemma eventId_log_call: "eventId (log_call c p) = eventId p"
  by (simp add: log_call_def)

lemma unblock_count_unblockSync:
  "unblock_count e (unblockSync p) = unblock_count e p + (if eventId p = Some e \<and> e \<noteq> 0 then 1 else 0)"
  by (auto simp: unblock_count_def calls_unblockSync split: option.splits)

lemma unblock_count_log_call:
  "unblock_count e (log_call c p) = unblock_count e p + (if c = UnblockOperation e then 1 else 0)"
  by (simp add: unblock_count_def calls_log_call)

lemma unblock_count_ngOnDestroy:
  "unblock_count e (ngOnDestroy p) = unblock_count e p + (if eventId p = Some e \<and> e \<noteq> 0 then 1 else 0)"
  using unblock_count_unblockSync [of e p] by (simp add: ngOnDestroy_def unblock_count_def)

lemma eventId_ngOnDestroy: "eventId (ngOnDestroy p) = eventId p"
  by (simp add: ngOnDestroy_def eventId_unblockSync)

lemma unblock_count_returnToList:
  "unblock_count e (returnToList sv ev p) = unblock_count e p + (if eventId p = Some e \<and> e \<noteq> 0 then 1 else 0)"
proof -
  have "calls (returnToList sv ev p) =
          calls (unblockSync p) @
          [Trigger (case eventId p of None \<Rightarrow> creation_notification ev
                    | Some i \<Rightarrow> if i \<noteq> 0 \<and> i > 0 then EDIT_EVENT_EVENT i else creation_notification ev)] @
          (if outletActivated sv then [] else [NavigatorBack])"
    by (simp add: returnToList_def Let_def calls_log_call eventId_unblockSync split: option.splits)
  then have "unblock_count e (returnToList sv ev p) = unblock_count e (unblockSync p)"
    by (simp add: unblock_count_def)
  then show ?thesis by (simp add: unblock_count_unblockSync)
qed

lemma eventId_returnToList: "eventId (returnToList sv ev p) = eventId p"
  by (simp add: returnToList_def Let_def log_call_def eventId_unblockSync split: option.splits)

lemma unblock_count_submit_resume:
  assumes "submitEvent sv = Resolved r"
  shows "unblock_count e (submit_resume sv fd data p) = unblock_count e p + (if eventId p = Some e \<and> e \<noteq> 0 then 1 else 0)"
proof -
  obtain sent event where r: "r = (sent, event)" by (cases r)
  show ?thesis
    using assms
    by (simp add: submit_resume_def r Let_def unblock_count_log_call unblock_count_returnToList eventId_log_call)
qed

lemma calls_submit_resume:
  "\<exists>rest. calls (submit_resume sv fd data p) = calls p @ rest"
  by (simp add: submit_resume_def returnToList_def Let_def calls_log_call calls_unblockSync
      eventId_unblockSync split: response.splits prod.splits option.splits)

lemma eventId_submit_resume: "eventId (submit_resume sv fd data p) = eventId p"
  by (simp add: submit_resume_def Let_def eventId_log_call eventId_returnToList split: response.splits prod.splits)

lemma submit_start_ok:
  "validate sv (form p) = None \<Longrightarrow>
   submit_start sv p = (Some (form p, build_data sv (eventRepeatId p) (form p)),
      p\<lparr>calls := calls p @ [ShowModalLoading ''core.sending'', SubmitEvent (eventId p) (build_data sv (eventRepeatId p) (form p))]\<rparr>)"
  by (simp add: submit_start_def log_call_def Let_def)

lemma form_loadGroups: "form (snd (loadGroups sv c p)) = form p"
  by (simp add: loadGroups_def Let_def split: response.splits)

lemma form_loadEventData:
  "form (snd (loadEventData sv ev isOffline p)) =
     (if isOffline then load_offline sv ev (load_common sv ev (ev_courseid ev) (form p))
      else load_online sv ev (load_common sv ev (ev_course_id ev) (form p)))"
  by (simp add: loadEventData_def Let_def form_loadGroups split: option.splits)

subsection \<open>Releasing the lock after a submission\<close>

text \<open>
  C1, as stated, fails: on the page opened on event 7 (one call of \<open>blockOperation\<close>),
  a submission that succeeds calls \<open>unblockOperation\<close> for event 7 from
  \<open>returnToList\<close>, and \<open>ngOnDestroy\<close> calls it again: two calls, not one.
\<close>

theorem unblock_once_counterexample:
  "validate example_courses_services (form example_loaded_page) = None
   \<and> submitEvent example_courses_services = Resolved (True, example_event)
   \<and> unblock_count 7 (ngOnDestroy (submit example_courses_services example_loaded_page)) = 2
   \<and> unblock_count 7 (ngOnDestroy (submit example_courses_services example_loaded_page)) \<noteq> 1"
  by (simp add: example_loaded example_defs js_defs validate_def submit_def submit_start_def
      submit_resume_def returnToList_def unblockSync_def ngOnDestroy_def log_call_def
      unblock_count_def)

text \<open>
  C1, amended: in every run in which \<open>submit\<close> passes validation and \<open>submitEvent\<close>
  resolves, and \<open>ngOnDestroy\<close> fires afterwards or while \<open>submitEvent\<close> is awaited,
  \<open>unblockOperation\<close> is called exactly twice for the event id of the page (once by
  \<open>returnToList\<close>, once by \<open>ngOnDestroy\<close>) when the page has an event id (not 0), and
  for no id when it has none.
\<close>

theorem unblock_twice_after_submit_and_destroy:
  assumes "validate sv (form p) = None" and "submitEvent sv = Resolved r"
  shows "unblock_count e (ngOnDestroy (submit sv p)) = unblock_count e p + (if eventId p = Some e \<and> e \<noteq> 0 then 2 else 0)
       \<and> unblock_count e (submit_resume sv (form p) (build_data sv (eventRepeatId p) (form p))
            (ngOnDestroy (snd (submit_start sv p)))) = unblock_count e p + (if eventId p = Some e \<and> e \<noteq> 0 then 2 else 0)"
proof -
  let ?d = "build_data sv (eventRepeatId p) (form p)"
  let ?p1 = "p\<lparr>calls := calls p @ [ShowModalLoading ''core.sending'', SubmitEvent (eventId p) ?d]\<rparr>"
  have st: "submit_start sv p = (Some (form p, ?d), ?p1)"
    using assms(1) by (rule submit_start_ok)
  have c1: "unblock_count e ?p1 = unblock_count e p" by (simp add: unblock_count_def)
  have e1: "eventId ?p1 = eventId p" by simp
  have a: "unblock_count e (ngOnDestroy (submit sv p)) = unblock_count e p + (if eventId p = Some e \<and> e \<noteq> 0 then 2 else 0)"
    by (simp add: submit_def st unblock_count_ngOnDestroy eventId_submit_resume
        unblock_count_submit_resume [OF assms(2)] c1 del: One_nat_def)
  have b: "unblock_count e (submit_resume sv (form p) ?d (ngOnDestroy (snd (submit_start sv p)))) = unblock_count e p + (if eventId p = Some e \<and> e \<noteq> 0 then 2 else 0)"
    by (simp add: st unblock_count_submit_resume [OF assms(2)] unblock_count_ngOnDestroy eventId_ngOnDestroy c1)
  from a b show ?thesis by simp
qed


text \<open>The run on event 7, destroyed after the submission and while it is awaited.\<close>

theorem unblock_twice_witness:
  "unblock_count 7 (ngOnDestroy (submit example_courses_services example_loaded_page)) = 2
   \<and> unblock_count 7
        (submit_resume example_courses_services (form example_loaded_page)
           (build_data example_courses_services (eventRepeatId example_loaded_page)
              (form example_loaded_page))
           (ngOnDestroy (snd (submit_start example_courses_services example_loaded_page)))) = 2"
proof -
  have v: "validate example_courses_services (form example_loaded_page) = None"
    by (simp add: example_loaded example_defs js_defs validate_def)
  have s: "submitEvent example_courses_services = Resolved (True, example_event)"
    by (simp add: example_defs)
  show ?thesis
    using unblock_twice_after_submit_and_destroy [OF v s, of 7]
    by (simp add: example_loaded unblock_count_def)
qed

subsection \<open>Loading an event into the form\<close>

text \<open>
  C2, as stated, fails: the draft \<open>example_draft\<close> stores neither an until-time nor
  minutes, and the form gets the current time, formatted, and the empty string.
\<close>

theorem offline_verbatim_counterexample:
  "timedurationuntil (form (snd (loadEventData example_services example_draft True example_page)))
     \<noteq> opt_num (ev_timedurationuntil example_draft)
   \<and> timedurationminutes (form (snd (loadEventData example_services example_draft True example_page)))
     \<noteq> opt_num (ev_timedurationminutes example_draft)"
  by (simp add: example_defs js_defs loadEventData_def load_common_def load_offline_def Let_def)


text \<open>
  C2, amended: \<open>loadEventData\<close> with \<open>isOffline = true\<close> copies the stored \<open>duration\<close>
  unchanged; \<open>timedurationuntil\<close> becomes the datetime string of the stored value in
  milliseconds, or of the current time when the stored value is absent or 0; and
  \<open>timedurationminutes\<close> is the stored value, or the empty string when it is absent
  or 0.
\<close>

theorem loadEventData_offline_duration_fields:
  "duration (form (snd (loadEventData sv ev True p))) = opt_num (ev_duration ev)
   \<and> timedurationuntil (form (snd (loadEventData sv ev True p))) =
       JStr (toDatetimeFormat sv (Some
         (case ev_timedurationuntil ev of
            None \<Rightarrow> date_now sv
          | Some u \<Rightarrow> if u = 0 then date_now sv else u * 1000)))
   \<and> timedurationminutes (form (snd (loadEventData sv ev True p))) =
       (case ev_timedurationminutes ev of
          None \<Rightarrow> JStr []
        | Some m \<Rightarrow> if m = 0 then JStr [] else JNum (Val m))"
  by (simp add: form_loadEventData load_offline_def load_common_def js_defs Let_def split: option.splits)


text \<open>The draft without duration.\<close>

theorem loadEventData_offline_witness:
  "duration (form (snd (loadEventData example_services example_draft True example_page))) = JNum (Val 0)
   \<and> timedurationuntil (form (snd (loadEventData example_services example_draft True example_page))) =
       JStr ''2023-11-14T22:00:00.000Z''
   \<and> timedurationminutes (form (snd (loadEventData example_services example_draft True example_page))) = JStr []"
  using loadEventData_offline_duration_fields [of example_services example_draft example_page]
  by (simp add: example_defs js_defs)


text \<open>
  C4: loading an event of the server (\<open>isOffline = false\<close>) whose \<open>timeduration\<close> is
  strictly positive sets the duration mode to 1 (until-time) and the until-time to the
  datetime string of \<open>(timestart + timeduration) * 1000\<close> milliseconds.
\<close>

theorem loadEventData_online_positive_duration:
  assumes "ev_timeduration ev = Some d" and "d > 0"
  shows "duration (form (snd (loadEventData sv ev False p))) = JNum (Val 1)
       \<and> timedurationuntil (form (snd (loadEventData sv ev False p))) =
           JStr (toDatetimeFormat sv (Some ((ev_timestart ev + d) * 1000)))"
  using assms by (simp add: form_loadEventData load_online_def load_common_def Let_def)


text \<open>The event that starts at 1700000000 and lasts 3600 seconds.\<close>

theorem loadEventData_online_witness:
  "ev_timeduration example_event = Some 3600
   \<and> duration (form (snd (loadEventData example_services example_event False example_page))) = JNum (Val 1)
   \<and> timedurationuntil (form (snd (loadEventData example_services example_event False example_page))) =
       JStr ''2023-11-14T23:13:20.000Z''"
proof -
  have h: "ev_timeduration example_event = Some 3600" by (simp add: example_defs)
  show ?thesis using h loadEventData_online_positive_duration [OF h, of example_services example_page]
    by (simp add: example_defs)
qed


subsection \<open>Validation in submit\<close>

lemma loose_eq_num_1_2: "loose_eq_num tn v 1 \<Longrightarrow> \<not> loose_eq_num tn v 2"
  by (cases "(tn, v, 1::int)" rule: loose_eq_num.cases) (auto split: if_splits)

lemma is_type_inject: "is_type v t \<Longrightarrow> is_type v t' \<Longrightarrow> t = t'"
  by (cases t; cases t') (simp_all add: is_type_def)

lemma validate_group_no_group:
  assumes "is_type (eventtype fd) GROUP" and "\<not> truthy (groupid fd)"
  shows "validate sv fd = Some (if truthy (groupcourseid fd) then ''core.selectagroup'' else ''core.selectacourse'')"
proof -
  have "\<not> is_type (eventtype fd) COURSE"
    using assms(1) is_type_inject by blast
  then show ?thesis using assms by (simp add: validate_def Let_def)
qed

lemma validate_required_ok:
  assumes "required_fields_ok fd"
  shows "validate sv fd =
     (if loose_eq_num (string_to_number sv) (duration fd) 1
         \<and> num_gt (convertToTimestamp sv (timestart fd)) (convertToTimestamp sv (timedurationuntil fd))
      then Some ''addon.calendar.invalidtimedurationuntil''
      else if loose_eq_num (string_to_number sv) (duration fd) 2
         \<and> (isNaN (js_parseInt (js_or (timedurationminutes fd) (JStr [])))
              \<or> num_lt (js_parseInt (js_or (timedurationminutes fd) (JStr []))) (Val 1))
      then Some ''addon.calendar.invalidtimedurationminutes''
      else None)"
  using assms by (auto simp: validate_def required_fields_ok_def Let_def)

lemma validate_blocks_until:
  assumes "loose_eq_num (string_to_number sv) (duration fd) 1"
    and "num_gt (convertToTimestamp sv (timestart fd)) (convertToTimestamp sv (timedurationuntil fd))"
  shows "validate sv fd \<noteq> None"
  using assms by (simp add: validate_def Let_def)

lemma num_gt_lt: "num_gt a b = num_lt b a"
  by (cases a; cases b) auto

lemma at_least_one_iff: "at_least_one m = (\<not> (isNaN m \<or> num_lt m (Val 1)))"
  by (cases m) auto

lemma validate_blocks_minutes:
  assumes "loose_eq_num (string_to_number sv) (duration fd) 2"
    and "\<not> at_least_one (js_parseInt (js_or (timedurationminutes fd) (JStr [])))"
  shows "validate sv fd \<noteq> None"
  using assms by (simp add: validate_def Let_def at_least_one_iff)

lemma submit_blocked:
  assumes "validate sv (form p) = Some err"
  shows "fst (submit_start sv p) = None"
    and "submit sv p = log_call (ShowErrorModal (translate sv err)) p"
  using assms by (simp_all add: submit_def submit_start_def)

lemma submit_not_blocked:
  assumes "validate sv (form p) = None"
  shows "fst (submit_start sv p) \<noteq> None"
  using assms by (simp add: submit_start_def Let_def)

text \<open>
  C3, as stated, fails: with the type Group and neither a course nor a group selected
  (the new form after choosing Group), the message is \<open>core.selectacourse\<close>, not
  \<open>core.selectagroup\<close>: the rule on the group's course is tested first.
\<close>

theorem group_required_message_counterexample:
  "is_type (eventtype example_group_form) GROUP
   \<and> \<not> truthy (groupid example_group_form)
   \<and> validate example_services example_group_form = Some ''core.selectacourse''
   \<and> validate example_services example_group_form \<noteq> Some ''core.selectagroup''
   \<and> calls (submit example_services (example_page\<lparr>form := example_group_form\<rparr>)) =
       [ShowErrorModal ''core.selectacourse'']"
  by (simp add: example_defs js_defs validate_def submit_def submit_start_def log_call_def)

text \<open>
  C3, amended: for every form state whose event type is Group and whose group field is
  empty, \<open>submit\<close> stops after showing one error message, without building a payload
  and without calling \<open>submitEvent\<close>; the message is \<open>core.selectagroup\<close> when the
  group's course is selected, and \<open>core.selectacourse\<close> when that field is empty too.
\<close>

theorem submit_group_without_group_blocked:
  assumes "is_type (eventtype (form p)) GROUP" and "\<not> truthy (groupid (form p))"
  shows "submit_start sv p =
           (None, log_call (ShowErrorModal (translate sv
              (if truthy (groupcourseid (form p)) then ''core.selectagroup''
               else ''core.selectacourse''))) p)
       \<and> submit sv p = log_call (ShowErrorModal (translate sv
              (if truthy (groupcourseid (form p)) then ''core.selectagroup''
               else ''core.selectacourse''))) p"
  using validate_group_no_group [OF assms, of sv]
  by (simp add: submit_def submit_start_def Let_def)

text \<open>The type Group with course 3 and no group.\<close>

theorem submit_group_without_group_witness:
  "submit example_services (example_page\<lparr>form := example_group_form\<lparr>groupcourseid := JNum (Val 3)\<rparr>\<rparr>) =
     log_call (ShowErrorModal ''core.selectagroup'')
       (example_page\<lparr>form := example_group_form\<lparr>groupcourseid := JNum (Val 3)\<rparr>\<rparr>)"
  using submit_group_without_group_blocked [of "example_page\<lparr>form := example_group_form\<lparr>groupcourseid := JNum (Val 3)\<rparr>\<rparr>" example_services]
  by (simp add: example_defs js_defs)

text \<open>
  C5, as stated, fails: with the type Course and no course selected, an until-time
  before the start time is reported as \<open>core.selectacourse\<close>, since the required-field
  rules are tested first.
\<close>

theorem until_time_error_counterexample:
  "loose_eq_num (string_to_number example_services) (duration example_course_form) 1
   \<and> num_lt (convertToTimestamp example_services (timedurationuntil example_course_form))
            (convertToTimestamp example_services (timestart example_course_form))
   \<and> validate example_services example_course_form = Some ''core.selectacourse''
   \<and> validate example_services example_course_form \<noteq> Some ''addon.calendar.invalidtimedurationuntil''
   \<and> calls (submit example_services (example_page\<lparr>form := example_course_form\<rparr>)) =
       [ShowErrorModal ''core.selectacourse'']"
  by (simp add: example_defs js_defs validate_def submit_def submit_start_def log_call_def)

text \<open>
  C5, amended: for every form state with \<open>duration == 1\<close>, an until-time that converts to
  a timestamp strictly earlier than the start timestamp blocks the submission; and when
  none of the required-field rules (tested first) fires, the message is
  \<open>addon.calendar.invalidtimedurationuntil\<close> and validation passes if and only if the
  until-time does not precede the start time.
\<close>

theorem validate_until_time:
  assumes "loose_eq_num (string_to_number sv) (duration (form p)) 1"
  shows "(num_lt (convertToTimestamp sv (timedurationuntil (form p)))
                 (convertToTimestamp sv (timestart (form p)))
            \<longrightarrow> fst (submit_start sv p) = None
                \<and> (\<exists>err. submit sv p = log_call (ShowErrorModal (translate sv err)) p))
       \<and> (required_fields_ok (form p) \<longrightarrow>
            (if num_lt (convertToTimestamp sv (timedurationuntil (form p)))
                       (convertToTimestamp sv (timestart (form p)))
             then validate sv (form p) = Some ''addon.calendar.invalidtimedurationuntil''
                  \<and> submit sv p = log_call (ShowErrorModal
                        (translate sv ''addon.calendar.invalidtimedurationuntil'')) p
             else validate sv (form p) = None \<and> fst (submit_start sv p) \<noteq> None))"
proof -
  let ?lt = "num_lt (convertToTimestamp sv (timedurationuntil (form p)))
                    (convertToTimestamp sv (timestart (form p)))"
  have A: "fst (submit_start sv p) = None
           \<and> (\<exists>err. submit sv p = log_call (ShowErrorModal (translate sv err)) p)" if ?lt
  proof -
    have "validate sv (form p) \<noteq> None"
      using that assms by (intro validate_blocks_until) (simp_all add: num_gt_lt)
    then obtain err where "validate sv (form p) = Some err" by auto
    from submit_blocked [OF this] show ?thesis by blast
  qed
  have v: "validate sv (form p) =
             (if ?lt then Some ''addon.calendar.invalidtimedurationuntil'' else None)"
    if "required_fields_ok (form p)"
    using that assms loose_eq_num_1_2 [OF assms] by (simp add: validate_required_ok num_gt_lt)
  have B: "(if ?lt
             then validate sv (form p) = Some ''addon.calendar.invalidtimedurationuntil''
                  \<and> submit sv p = log_call (ShowErrorModal
                        (translate sv ''addon.calendar.invalidtimedurationuntil'')) p
             else validate sv (form p) = None \<and> fst (submit_start sv p) \<noteq> None)"
    if r: "required_fields_ok (form p)"
  proof (cases ?lt)
    case True
    then have "validate sv (form p) = Some ''addon.calendar.invalidtimedurationuntil''"
      using v [OF r] by simp
    with submit_blocked(2) [OF this] True show ?thesis by simp
  next
    case False
    then have "validate sv (form p) = None" using v [OF r] by simp
    with submit_not_blocked [OF this] False show ?thesis by simp
  qed
  from A B show ?thesis by blast
qed

text \<open>The type Course with course 3, starting at 23:13:20 until 22:13:20.\<close>

theorem validate_until_time_witness:
  "submit example_services (example_page\<lparr>form := example_course_form\<lparr>courseid := JNum (Val 3)\<rparr>\<rparr>) =
     log_call (ShowErrorModal ''addon.calendar.invalidtimedurationuntil'')
       (example_page\<lparr>form := example_course_form\<lparr>courseid := JNum (Val 3)\<rparr>\<rparr>)"
  using validate_until_time [of example_services "example_page\<lparr>form := example_course_form\<lparr>courseid := JNum (Val 3)\<rparr>\<rparr>"]
  by (simp add: example_defs js_defs required_fields_ok_def)

text \<open>
  C6, as stated, fails: with the type Category and no category selected, minutes that are
  not a number are reported as \<open>core.selectacategory\<close>, since the required-field rules
  are tested first.
\<close>

theorem minutes_error_counterexample:
  "loose_eq_num (string_to_number example_services) (duration example_category_form) 2
   \<and> js_parseInt (js_or (timedurationminutes example_category_form) (JStr [])) = NaN
   \<and> validate example_services example_category_form = Some ''core.selectacategory''
   \<and> validate example_services example_category_form \<noteq> Some ''addon.calendar.invalidtimedurationminutes''
   \<and> calls (submit example_services (example_page\<lparr>form := example_category_form\<rparr>)) =
       [ShowErrorModal ''core.selectacategory'']"
  by (simp add: example_defs js_defs validate_def parse_int10_def is_space_def is_digit_def
      submit_def submit_start_def log_call_def)

text \<open>
  C6, amended: for every form state with \<open>duration == 2\<close>, \<open>submit\<close> blocks the
  submission unless \<open>parseInt\<close> of the minutes field is an integer greater than or equal
  to 1; and when none of the required-field rules (tested first) fires, the message is
  \<open>addon.calendar.invalidtimedurationminutes\<close> and validation passes if and only if
  the minutes parse to an integer greater than or equal to 1.
\<close>

theorem validate_minutes:
  assumes "loose_eq_num (string_to_number sv) (duration (form p)) 2"
  shows "(\<not> at_least_one (js_parseInt (js_or (timedurationminutes (form p)) (JStr [])))
            \<longrightarrow> fst (submit_start sv p) = None
                \<and> (\<exists>err. submit sv p = log_call (ShowErrorModal (translate sv err)) p))
       \<and> (required_fields_ok (form p) \<longrightarrow>
            (if at_least_one (js_parseInt (js_or (timedurationminutes (form p)) (JStr [])))
             then validate sv (form p) = None \<and> fst (submit_start sv p) \<noteq> None
             else validate sv (form p) = Some ''addon.calendar.invalidtimedurationminutes''
                  \<and> submit sv p = log_call (ShowErrorModal
                        (translate sv ''addon.calendar.invalidtimedurationminutes'')) p))"
proof -
  let ?ok = "at_least_one (js_parseInt (js_or (timedurationminutes (form p)) (JStr [])))"
  have n1: "\<not> loose_eq_num (string_to_number sv) (duration (form p)) 1"
    using assms loose_eq_num_1_2 by blast
  have A: "fst (submit_start sv p) = None
           \<and> (\<exists>err. submit sv p = log_call (ShowErrorModal (translate sv err)) p)" if "\<not> ?ok"
  proof -
    have "validate sv (form p) \<noteq> None"
      using assms that by (rule validate_blocks_minutes)
    then obtain err where "validate sv (form p) = Some err" by auto
    from submit_blocked [OF this] show ?thesis by blast
  qed
  have v: "validate sv (form p) =
             (if ?ok then None else Some ''addon.calendar.invalidtimedurationminutes'')"
    if "required_fields_ok (form p)"
    using that assms n1 by (simp add: validate_required_ok at_least_one_iff)
  have B: "(if ?ok
             then validate sv (form p) = None \<and> fst (submit_start sv p) \<noteq> None
             else validate sv (form p) = Some ''addon.calendar.invalidtimedurationminutes''
                  \<and> submit sv p = log_call (ShowErrorModal
                        (translate sv ''addon.calendar.invalidtimedurationminutes'')) p)"
    if r: "required_fields_ok (form p)"
  proof (cases ?ok)
    case True
    then have "validate sv (form p) = None" using v [OF r] by simp
    with submit_not_blocked [OF this] True show ?thesis by simp
  next
    case False
    then have "validate sv (form p) = Some ''addon.calendar.invalidtimedurationminutes''"
      using v [OF r] by simp
    with submit_blocked(2) [OF this] False show ?thesis by simp
  qed
  from A B show ?thesis by blast
qed

text \<open>The type Category with category 4 and the minutes \<open>abc\<close>, \<open>0\<close> and \<open>30\<close>.\<close>

theorem validate_minutes_witness:
  "submit example_services (example_page\<lparr>form := example_category_form\<lparr>categoryid := JNum (Val 4)\<rparr>\<rparr>) =
     log_call (ShowErrorModal ''addon.calendar.invalidtimedurationminutes'')
       (example_page\<lparr>form := example_category_form\<lparr>categoryid := JNum (Val 4)\<rparr>\<rparr>)
   \<and> submit example_services
        (example_page\<lparr>form := example_category_form\<lparr>categoryid := JNum (Val 4),
                                                     timedurationminutes := JStr ''0''\<rparr>\<rparr>) =
     log_call (ShowErrorModal ''addon.calendar.invalidtimedurationminutes'')
       (example_page\<lparr>form := example_category_form\<lparr>categoryid := JNum (Val 4),
                                                    timedurationminutes := JStr ''0''\<rparr>\<rparr>)
   \<and> validate example_services
        (example_category_form\<lparr>categoryid := JNum (Val 4), timedurationminutes := JStr ''30''\<rparr>) = None"
  using validate_minutes [of example_services "example_page\<lparr>form := example_category_form\<lparr>categoryid := JNum (Val 4)\<rparr>\<rparr>"]
    validate_minutes [of example_services "example_page\<lparr>form := example_category_form\<lparr>categoryid := JNum (Val 4), timedurationminutes := JStr ''0''\<rparr>\<rparr>"]
    validate_minutes [of example_services "example_page\<lparr>form := example_category_form\<lparr>categoryid := JNum (Val 4), timedurationminutes := JStr ''30''\<rparr>\<rparr>"]
  by (simp add: example_defs js_defs required_fields_ok_def parse_int10_def is_space_def is_digit_def
      digits_val_def digit_val_def)

text \<open>
  C8: when a validation rule fails, \<open>submit\<close> only shows the translated message: the
  log grows by that one call (so \<open>submitEvent\<close> is not called, no notification is
  triggered and \<open>unblockOperation\<close> is not called), no payload is built, and every
  field of the page, the form among them, is unchanged.
\<close>

theorem submit_validation_error_no_effects:
  assumes "validate sv (form p) = Some err"
  shows "submit_start sv p = (None, p\<lparr>calls := calls p @ [ShowErrorModal (translate sv err)]\<rparr>)
       \<and> submit sv p = p\<lparr>calls := calls p @ [ShowErrorModal (translate sv err)]\<rparr>
       \<and> form (submit sv p) = form p"
  using assms by (simp add: submit_def submit_start_def log_call_def)

text \<open>The type Course without a course.\<close>

theorem submit_validation_error_witness:
  "validate example_services example_course_form = Some ''core.selectacourse''
   \<and> submit example_services (example_page\<lparr>form := example_course_form\<rparr>) =
       example_page\<lparr>form := example_course_form, calls := [ShowErrorModal ''core.selectacourse'']\<rparr>"
proof -
  have v: "validate example_services (form (example_page\<lparr>form := example_course_form\<rparr>)) = Some ''core.selectacourse''"
    by (simp add: example_defs js_defs validate_def)
  show ?thesis
    using v submit_validation_error_no_effects [OF v] by (simp add: example_defs)
qed

subsection \<open>The payload\<close>

lemma build_data_fields:
  "(d_courseid (build_data sv rid fd) \<noteq> None) = is_type (eventtype fd) COURSE"
  "(d_groupcourseid (build_data sv rid fd) \<noteq> None) = is_type (eventtype fd) GROUP"
  "(d_groupid (build_data sv rid fd) \<noteq> None) = is_type (eventtype fd) GROUP"
  "(d_categoryid (build_data sv rid fd) \<noteq> None) = is_type (eventtype fd) CATEGORY"
  "(d_timedurationuntil (build_data sv rid fd) \<noteq> None) = loose_eq_num (string_to_number sv) (duration fd) 1"
  "(d_timedurationminutes (build_data sv rid fd) \<noteq> None) = loose_eq_num (string_to_number sv) (duration fd) 2"
  "(d_repeats (build_data sv rid fd) \<noteq> None) = truthy (repeat fd)"
  using loose_eq_num_1_2 [of "string_to_number sv" "duration fd"]
  by (auto simp: build_data_def Let_def is_type_def)

text \<open>
  C7: a submission that passes validation builds a payload and hands it to
  \<open>submitEvent\<close> (the call is in the log of \<open>submit\<close>); that payload has \<open>courseid\<close>
  exactly when the type is Course, \<open>groupcourseid\<close> and \<open>groupid\<close> exactly when it is
  Group, \<open>categoryid\<close> exactly when it is Category, \<open>timedurationuntil\<close> exactly when
  \<open>duration == 1\<close>, \<open>timedurationminutes\<close> exactly when \<open>duration == 2\<close>, and \<open>repeats\<close>
  exactly when the repeat flag is set.
\<close>

theorem submit_payload_fields:
  assumes "validate sv (form p) = None"
  shows "\<exists>data p'.
           submit_start sv p = (Some (form p, data), p')
         \<and> calls p' = calls p @ [ShowModalLoading ''core.sending'', SubmitEvent (eventId p) data]
         \<and> SubmitEvent (eventId p) data \<in> set (calls (submit sv p))
         \<and> (d_courseid data \<noteq> None) = is_type (eventtype (form p)) COURSE
         \<and> (d_groupcourseid data \<noteq> None) = is_type (eventtype (form p)) GROUP
         \<and> (d_groupid data \<noteq> None) = is_type (eventtype (form p)) GROUP
         \<and> (d_categoryid data \<noteq> None) = is_type (eventtype (form p)) CATEGORY
         \<and> (d_timedurationuntil data \<noteq> None) =
             loose_eq_num (string_to_number sv) (duration (form p)) 1
         \<and> (d_timedurationminutes data \<noteq> None) =
             loose_eq_num (string_to_number sv) (duration (form p)) 2
         \<and> (d_repeats data \<noteq> None) = truthy (repeat (form p))"
proof -
  let ?d = "build_data sv (eventRepeatId p) (form p)"
  let ?p1 = "p\<lparr>calls := calls p @ [ShowModalLoading ''core.sending'', SubmitEvent (eventId p) ?d]\<rparr>"
  have st: "submit_start sv p = (Some (form p, ?d), ?p1)"
    using assms by (rule submit_start_ok)
  have c: "calls ?p1 = calls p @ [ShowModalLoading ''core.sending'', SubmitEvent (eventId p) ?d]"
    by simp
  obtain rest where "calls (submit_resume sv (form p) ?d ?p1) = calls ?p1 @ rest"
    using calls_submit_resume by blast
  then have m: "SubmitEvent (eventId p) ?d \<in> set (calls (submit sv p))"
    by (simp add: submit_def st)
  have "submit_start sv p = (Some (form p, ?d), ?p1)
         \<and> calls ?p1 = calls p @ [ShowModalLoading ''core.sending'', SubmitEvent (eventId p) ?d]
         \<and> SubmitEvent (eventId p) ?d \<in> set (calls (submit sv p))
         \<and> (d_courseid ?d \<noteq> None) = is_type (eventtype (form p)) COURSE
         \<and> (d_groupcourseid ?d \<noteq> None) = is_type (eventtype (form p)) GROUP
         \<and> (d_groupid ?d \<noteq> None) = is_type (eventtype (form p)) GROUP
         \<and> (d_categoryid ?d \<noteq> None) = is_type (eventtype (form p)) CATEGORY
         \<and> (d_timedurationuntil ?d \<noteq> None) =
             loose_eq_num (string_to_number sv) (duration (form p)) 1
         \<and> (d_timedurationminutes ?d \<noteq> None) =
             loose_eq_num (string_to_number sv) (duration (form p)) 2
         \<and> (d_repeats ?d \<noteq> None) = truthy (repeat (form p))"
    using st c m by (simp only: build_data_fields simp_thms)
  then show ?thesis by blast
qed

text \<open>
  A group event of 30 minutes, repeated 4 times, on the page opened on event 7: what
  \<open>submit\<close> hands to \<open>submitEvent\<close>.
\<close>

theorem submit_payload_fields_witness:
  "validate example_services example_submit_form = None
   \<and> fst (submit_start example_services (example_page\<lparr>form := example_submit_form\<rparr>)) =
       Some (example_submit_form, example_payload)
   \<and> calls (snd (submit_start example_services (example_page\<lparr>form := example_submit_form\<rparr>))) =
       [ShowModalLoading ''core.sending'', SubmitEvent (Some 7) example_payload]
   \<and> SubmitEvent (Some 7) example_payload
       \<in> set (calls (submit example_services (example_page\<lparr>form := example_submit_form\<rparr>)))
   \<and> d_courseid example_payload = None
   \<and> d_groupcourseid example_payload \<noteq> None
   \<and> d_groupid example_payload \<noteq> None
   \<and> d_categoryid example_payload = None
   \<and> d_timedurationuntil example_payload = None
   \<and> d_timedurationminutes example_payload \<noteq> None
   \<and> d_repeats example_payload \<noteq> None"
proof -
  let ?p = "example_page\<lparr>form := example_submit_form\<rparr>"
  have v: "validate example_services (form ?p) = None"
    by (simp add: example_defs js_defs validate_def parse_int10_def
        is_space_def is_digit_def digits_val_def digit_val_def)
  have b: "build_data example_services None example_submit_form = example_payload"
    by (simp add: example_defs example_payload_def js_defs build_data_def parse_int10_def
        is_space_def is_digit_def digits_val_def digit_val_def)
  have f: "form ?p = example_submit_form" "eventId ?p = Some 7" "eventRepeatId ?p = None"
    "calls ?p = []"
    by (simp_all add: example_defs)
  obtain data p' where
    st: "submit_start example_services ?p = (Some (form ?p, data), p')"
    and c: "calls p' = calls ?p @ [ShowModalLoading ''core.sending'', SubmitEvent (eventId ?p) data]"
    and m: "SubmitEvent (eventId ?p) data \<in> set (calls (submit example_services ?p))"
    using submit_payload_fields [OF v] by blast
  have "data = example_payload"
    using st submit_start_ok [OF v] by (simp add: f b)
  then show ?thesis
    using v st c m by (simp add: f example_payload_def)
qed

subsection \<open>Loading the courses and the event types\<close>

lemma fetchCourses_empty:
  assumes "(if showAll p then getCoursesByField sv else getUserCourses sv) = Resolved []"
  shows "fetchCourses sv p = (Some TypeError, p)"
  using assms by (simp add: fetchCourses_def contacts_in_first_def)

lemma first_failure_3: "first_failure [a, b, Some e] \<noteq> None"
  by (cases a; cases b) (simp_all add: first_failure_def)

lemma run_promises_empty_courses:
  assumes "(if calendar_adminseesall sv \<and> a then getCoursesByField sv else getUserCourses sv)
             = Resolved []"
    and "types p ''course'' \<or> types p ''groups''"
  shows "fst (run_promises sv a p) \<noteq> None"
proof -
  have "fetchCourses sv (q\<lparr>showAll := (calendar_adminseesall sv \<and> a)\<rparr>)
          = (Some TypeError, q\<lparr>showAll := (calendar_adminseesall sv \<and> a)\<rparr>)" for q
    using assms(1) by (intro fetchCourses_empty) simp
  then show ?thesis
    using assms(2) by (simp add: run_promises_def Let_def first_failure_3)
qed

lemma fetchData_failure:
  assumes "fetchData_try sv (p\<lparr>error := False\<rparr>) = (Some e, q)"
  shows "error (fetchData sv p) \<and> last (calls (fetchData sv p)) = ShowErrorModalDefault e ''Error getting data.''"
  using assms by (simp add: fetchData_def log_call_def)

text \<open>
  C9: when the course list that was fetched is empty, \<open>fetchCourses\<close> does not take the
  early return of line 257 (\<open>courses.length < 0\<close> is false) and fails with a TypeError at
  \<open>'contacts' in courses[0]\<close>, leaving the page as it was; in \<open>fetchData\<close>, when courses
  are fetched, this ends in the error state with the call
  \<open>showErrorModalDefault(error, 'Error getting data.')\<close>. The list is the answer of the
  one service the run calls: \<open>getCoursesByField\<close> when \<open>showAll\<close> is set, else
  \<open>getUserCourses\<close>.
\<close>

theorem fetchCourses_empty_list_faults:
  "((if showAll p then getCoursesByField sv else getUserCourses sv) = Resolved []
      \<longrightarrow> fetchCourses sv p = (Some TypeError, p))
   \<and> (getAccessInformation sv = Resolved a \<and> getAllowedEventTypes sv = Resolved tys
        \<and> getEventTypeOptions sv tys \<noteq> [] \<and> (tys ''course'' \<or> tys ''groups'')
        \<and> (if calendar_adminseesall sv \<and> a then getCoursesByField sv else getUserCourses sv)
             = Resolved []
      \<longrightarrow> error (fetchData sv p)
          \<and> (\<exists>e. last (calls (fetchData sv p)) = ShowErrorModalDefault e ''Error getting data.''))"
proof -
  have "error (fetchData sv p)
        \<and> (\<exists>e. last (calls (fetchData sv p)) = ShowErrorModalDefault e ''Error getting data.'')"
    if h: "getAccessInformation sv = Resolved a" "getAllowedEventTypes sv = Resolved tys"
       "getEventTypeOptions sv tys \<noteq> []" "tys ''course'' \<or> tys ''groups''"
       "(if calendar_adminseesall sv \<and> a then getCoursesByField sv else getUserCourses sv)
          = Resolved []"
  proof -
    let ?p1 = "p\<lparr>error := False, types := tys\<rparr>"
    obtain first rest where opts: "getEventTypeOptions sv tys = first # rest"
      using h(3) by (cases "getEventTypeOptions sv tys") auto
    have "fst (run_promises sv a ?p1) \<noteq> None"
      using h(4) by (intro run_promises_empty_courses [OF h(5)]) simp
    then obtain e q where rp: "run_promises sv a ?p1 = (Some e, q)"
      by (cases "run_promises sv a ?p1") auto
    have "fetchData_try sv (p\<lparr>error := False\<rparr>) = (Some e, q)"
      by (simp add: fetchData_try_def h(1,2) opts rp Let_def)
    from fetchData_failure [OF this] show ?thesis by blast
  qed
  then show ?thesis using fetchCourses_empty [of p sv] by blast
qed

text \<open>
  A user without courses; and an administrator who sees all courses on a site where
  \<open>getCoursesByField\<close> answers no course, whatever \<open>getUserCourses\<close> would answer.
\<close>

theorem fetchCourses_empty_list_witness:
  "fetchCourses example_services example_page = (Some TypeError, example_page)
   \<and> error (fetchData example_services example_page)
   \<and> fetchCourses example_courses_services (example_page\<lparr>showAll := True\<rparr>) =
       (Some TypeError, example_page\<lparr>showAll := True\<rparr>)
   \<and> error (fetchData (example_courses_services\<lparr>calendar_adminseesall := True\<rparr>) example_page)"
  using fetchCourses_empty_list_faults [of example_page example_services True example_types]
    fetchCourses_empty_list_faults [of "example_page\<lparr>showAll := True\<rparr>" example_courses_services]
    fetchCourses_empty_list_faults [of example_page
       "example_courses_services\<lparr>calendar_adminseesall := True\<rparr>" True example_types]
  by (simp add: example_defs)

lemma truthy_init_type: "truthy (eventtype (form (init_type first q)))"
  by (cases "opt_value first") (simp_all add: init_type_def)

lemma eventtype_init_type:
  "eventtype (form (init_type first q)) =
     (if truthy (eventtype (form q)) then eventtype (form q)
      else if types q ''course'' then JStr (type_value COURSE)
      else JStr (type_value (opt_value first)))"
  by (simp add: init_type_def)

lemma types_loadGroups: "types (snd (loadGroups sv c p)) = types p"
  by (simp add: loadGroups_def Let_def split: response.splits)

lemma types_loadEventData: "types (snd (loadEventData sv ev off p)) = types p"
  by (simp add: loadEventData_def Let_def types_loadGroups split: option.splits)

lemma types_finish_event: "types (snd (finish_event sv ef p)) = types p"
  by (simp add: finish_event_def Let_def types_loadEventData split: option.splits)

lemma types_fetchEvent: "types (snd (fetchEvent sv eid p)) = types p"
  by (simp add: fetchEvent_def Let_def types_finish_event log_call_def split: response.splits)

lemma types_fetchCategories: "types (snd (fetchCategories sv p)) = types p"
  by (simp add: fetchCategories_def split: response.splits)

lemma types_fetchCourses: "types (snd (fetchCourses sv p)) = types p"
  by (simp add: fetchCourses_def Let_def split: response.splits sum.splits)

lemma types_run_promises: "types (snd (run_promises sv a p)) = types p"
  by (simp add: run_promises_def Let_def types_fetchCourses types_fetchCategories types_fetchEvent
      split: option.splits)

lemma form_fetchCategories: "form (snd (fetchCategories sv p)) = form p"
  by (simp add: fetchCategories_def split: response.splits)

lemma form_fetchCourses: "form (snd (fetchCourses sv p)) = form p"
  by (simp add: fetchCourses_def Let_def split: response.splits sum.splits)

lemma form_run_promises_no_event:
  "eventId p = None \<Longrightarrow> form (snd (run_promises sv a p)) = form p"
  by (simp add: run_promises_def Let_def form_fetchCourses form_fetchCategories)

text \<open>
  C10: when no type is allowed (the list of options is empty), \<open>fetchData\<close> ends in the
  error state with the no-permission message. After a load that succeeded, the list of
  options is not empty and the type control is not empty: it keeps the value it had after
  the promises when that was not empty, and otherwise it is Course when \<open>types.course\<close> is
  set, else the value of the first option. When the page has no event id, the promises
  leave the form as it was.
\<close>

theorem fetchData_initializes_type:
  assumes "getAccessInformation sv = Resolved a" and "getAllowedEventTypes sv = Resolved tys"
  shows "(getEventTypeOptions sv tys = [] \<longrightarrow>
            error (fetchData sv p)
            \<and> calls (fetchData sv p) = calls p @
                [ShowErrorModalDefault
                   (CoreError (translate sv ''addon.calendar.nopermissiontoupdatecalendar''))
                   ''Error getting data.''])
       \<and> (\<not> error (fetchData sv p) \<longrightarrow>
            getEventTypeOptions sv tys \<noteq> []
            \<and> truthy (eventtype (form (fetchData sv p)))
            \<and> eventtype (form (fetchData sv p)) =
                (if truthy (eventtype (form (snd (run_promises sv a (p\<lparr>error := False, types := tys\<rparr>)))))
                 then eventtype (form (snd (run_promises sv a (p\<lparr>error := False, types := tys\<rparr>))))
                 else if tys ''course'' then JStr (type_value COURSE)
                 else JStr (type_value (opt_value (hd (getEventTypeOptions sv tys))))))
       \<and> (eventId p = None \<longrightarrow>
            form (snd (run_promises sv a (p\<lparr>error := False, types := tys\<rparr>))) = form p)"
proof -
  let ?p1 = "p\<lparr>error := False, types := tys\<rparr>"
  have A: "error (fetchData sv p) \<and> calls (fetchData sv p) = calls p @
                [ShowErrorModalDefault
                   (CoreError (translate sv ''addon.calendar.nopermissiontoupdatecalendar''))
                   ''Error getting data.'']"
    if "getEventTypeOptions sv tys = []"
    using that assms by (simp add: fetchData_def fetchData_try_def Let_def log_call_def)
  have B: "getEventTypeOptions sv tys \<noteq> []
            \<and> truthy (eventtype (form (fetchData sv p)))
            \<and> eventtype (form (fetchData sv p)) =
                (if truthy (eventtype (form (snd (run_promises sv a ?p1))))
                 then eventtype (form (snd (run_promises sv a ?p1)))
                 else if tys ''course'' then JStr (type_value COURSE)
                 else JStr (type_value (opt_value (hd (getEventTypeOptions sv tys)))))"
    if ok: "\<not> error (fetchData sv p)"
  proof (cases "getEventTypeOptions sv tys")
    case Nil
    with A ok show ?thesis by simp
  next
    case (Cons first rest)
    obtain r q where rp: "run_promises sv a ?p1 = (r, q)"
      by (cases "run_promises sv a ?p1") auto
    have tq: "types q = tys"
      using types_run_promises [of sv a ?p1] rp by simp
    show ?thesis
    proof (cases r)
      case None
      have "fetchData sv p = (init_type first q)\<lparr>eventTypes := first # rest\<rparr>"
        by (simp add: fetchData_def fetchData_try_def assms Cons rp None Let_def)
      then show ?thesis
        using truthy_init_type [of first q]
        by (simp add: Cons rp eventtype_init_type tq)
    next
      case (Some e)
      have "error (fetchData sv p)"
        by (simp add: fetchData_def fetchData_try_def assms Cons rp Some Let_def log_call_def)
      with ok show ?thesis by simp
    qed
  qed
  have C: "form (snd (run_promises sv a ?p1)) = form p" if "eventId p = None"
    using that form_run_promises_no_event [of ?p1 sv a] by simp
  from A B C show ?thesis by blast
qed

text \<open>A new event for a user who may create user and course events, and a user who may create none.\<close>

theorem fetchData_initializes_type_witness:
  "\<not> error (fetchData example_courses_services (example_page\<lparr>eventId := None\<rparr>))
   \<and> eventtype (form (fetchData example_courses_services (example_page\<lparr>eventId := None\<rparr>))) = JStr ''course''
   \<and> error (fetchData (example_services\<lparr>getAllowedEventTypes := Resolved (\<lambda>n. False)\<rparr>) example_page)"
proof -
  have e: "\<not> error (fetchData example_courses_services (example_page\<lparr>eventId := None\<rparr>))"
    by (simp add: example_defs fetchData_def fetchData_try_def run_promises_def fetchCourses_def
        contacts_in_first_def first_failure_def init_type_def)
  show ?thesis
    using e
      fetchData_initializes_type [of example_courses_services True example_types "example_page\<lparr>eventId := None\<rparr>"]
      fetchData_initializes_type [of "example_services\<lparr>getAllowedEventTypes := Resolved (\<lambda>n. False)\<rparr>" True "\<lambda>n. False" example_page]
    by (simp add: example_defs)
qed

end
